theory Spec2Isabelle
  imports Complex_Main "HOL-Library.Word"
begin

section \<open>JavaScript values\<close>

text \<open>
  The client of \<^verbatim>\<open>lib/client.js\<close> handles values decoded from JSON and the structured
  transaction descriptions given to \<^verbatim>\<open>parseTX\<close>. A number is a rational (every finite
  double is one; NaN and the infinities, which JSON cannot carry, are left out), an
  object is the list of its own properties, first entry of a name first.
\<close>

datatype jsval =
    JUndefined
  | JNull
  | JBool bool
  | JNum rat
  | JStr string
  | JArr "jsval list"
  | JObj "(string \<times> jsval) list"

text \<open>
  Exceptions and error objects. \<open>Error m\<close> is \<^verbatim>\<open>new Error(m)\<close>, \<open>AssertionError m\<close> is what
  \<^verbatim>\<open>assert\<close> throws with message \<open>m\<close>, \<open>TypeError p\<close> is the reading of property \<open>p\<close>
  of \<^verbatim>\<open>null\<close> or \<^verbatim>\<open>undefined\<close>, \<open>SyntaxError m\<close> is what \<^verbatim>\<open>JSON.parse\<close> throws,
  \<open>HeaderError n\<close> is what the http module throws for the header \<open>n\<close> when it refuses
  its value.
\<close>

datatype js_error =
    Error string
  | AssertionError string
  | TypeError string
  | SyntaxError string
  | HeaderError string

type_synonym byte = "8 word"

definition bindE :: "js_error + 'a \<Rightarrow> ('a \<Rightarrow> js_error + 'b) \<Rightarrow> js_error + 'b" where
  "bindE r f = (case r of Inl e \<Rightarrow> Inl e | Inr x \<Rightarrow> f x)"

text \<open>Truthiness, as \<^verbatim>\<open>if (v)\<close>, \<^verbatim>\<open>v && w\<close> and \<^verbatim>\<open>v || w\<close> test it.\<close>

fun truthy :: "jsval \<Rightarrow> bool" where
  "truthy JUndefined = False"
| "truthy JNull = False"
| "truthy (JBool b) = b"
| "truthy (JNum q) = (q \<noteq> 0)"
| "truthy (JStr s) = (s \<noteq> [])"
| "truthy (JArr vs) = True"
| "truthy (JObj kvs) = True"

definition js_or :: "jsval \<Rightarrow> jsval \<Rightarrow> jsval" where
  "js_or a b = (if truthy a then a else b)"

fun typeof :: "jsval \<Rightarrow> string" where
  "typeof JUndefined = ''undefined''"
| "typeof JNull = ''object''"
| "typeof (JBool b) = ''boolean''"
| "typeof (JNum q) = ''number''"
| "typeof (JStr s) = ''string''"
| "typeof (JArr vs) = ''object''"
| "typeof (JObj kvs) = ''object''"

fun isArray :: "jsval \<Rightarrow> bool" where
  "isArray (JArr vs) = True"
| "isArray v = False"

text \<open>
  \<^verbatim>\<open>v.p\<close> for the property names the client reads (\<^verbatim>\<open>error\<close>, \<^verbatim>\<open>version\<close>,
  \<^verbatim>\<open>inputs\<close>, \<^verbatim>\<open>outputs\<close>, \<^verbatim>\<open>hash\<close>, \<^verbatim>\<open>index\<close>, \<^verbatim>\<open>script\<close>, \<^verbatim>\<open>value\<close>,
  \<^verbatim>\<open>proof-of-work-complexity\<close>): none of them is a built-in property of an array, a
  string, a number or a boolean, so there the read gives \<^verbatim>\<open>undefined\<close>; on \<^verbatim>\<open>null\<close> and
  \<^verbatim>\<open>undefined\<close> the read throws.
\<close>

fun get_prop :: "jsval \<Rightarrow> string \<Rightarrow> js_error + jsval" where
  "get_prop JUndefined p = Inl (TypeError p)"
| "get_prop JNull p = Inl (TypeError p)"
| "get_prop (JObj kvs) p = Inr (case map_of kvs p of Some v \<Rightarrow> v | None \<Rightarrow> JUndefined)"
| "get_prop v p = Inr JUndefined"

text \<open>
  The string, the number and the elements of a value that an assertion has found to be a
  string, a number or an array.
\<close>

fun str_of :: "jsval \<Rightarrow> string" where
  "str_of (JStr s) = s"
| "str_of v = []"

fun num_of :: "jsval \<Rightarrow> rat" where
  "num_of (JNum q) = q"
| "num_of v = 0"

fun elems_of :: "jsval \<Rightarrow> jsval list" where
  "elems_of (JArr vs) = vs"
| "elems_of v = []"

text \<open>Decimal digits of a natural number, and the two lower-case hex digits of a byte.\<close>

definition digit_char :: "nat \<Rightarrow> char" where
  "digit_char d = ''0123456789abcdef'' ! d"

function show_nat :: "nat \<Rightarrow> string" where
  "show_nat n = (if n < 10 then [digit_char n] else show_nat (n div 10) @ [digit_char (n mod 10)])"
  by pat_completeness auto
termination
  by (relation "measure id") auto

declare show_nat.simps [simp del]

definition show_int :: "int \<Rightarrow> string" where
  "show_int i = (if i < 0 then CHR ''-'' # show_nat (nat (- i)) else show_nat (nat i))"

definition hex_byte :: "byte \<Rightarrow> string" where
  "hex_byte b = [digit_char (unat b div 16), digit_char (unat b mod 16)]"

text \<open>\<^verbatim>\<open>buf.toString('hex')\<close> of a Buffer.\<close>

definition toString_hex :: "byte list \<Rightarrow> string" where
  "toString_hex bs = concat (map hex_byte bs)"

section \<open>The libraries the client calls\<close>

text \<open>
  The client is glue around Node's built-ins and the packages \<^verbatim>\<open>hackchain-core\<close>,
  \<^verbatim>\<open>bn.js\<close> and \<^verbatim>\<open>proof-of-work\<close>, none of which is part of it. They are the fields
  of one record that every function of the model takes: a call that may throw returns
  a sum, \<open>Inl\<close> the exception.
  \<^item> \<open>ToString_other\<close> is \<^verbatim>\<open>String(v)\<close> for the values where it is not immediate
    (arrays, objects, numbers that are not integers of at most \<open>2^53\<close> in absolute value);
  \<^item> \<open>url_parse\<close> is \<^verbatim>\<open>url.parse\<close>, \<open>Buffer_from_hex s\<close> is \<^verbatim>\<open>Buffer.from(s, 'hex')\<close>;
  \<^item> \<open>ToNumber\<close> is the numeric value a string, array or object has under \<^verbatim>\<open>==\<close>
    against a number, \<open>None\<close> for NaN;
  \<^item> \<open>TX_new\<close>, \<open>tx_input\<close>, \<open>tx_output\<close>, \<open>tx_render\<close>, \<open>tx_hash\<close> are
    \<^verbatim>\<open>new TX()\<close>, \<^verbatim>\<open>tx.input\<close>, \<^verbatim>\<open>tx.output\<close>, \<^verbatim>\<open>tx.render\<close> into a fresh
    write buffer and \<^verbatim>\<open>tx.hash()\<close>; a transaction is passed and returned, where the
    JavaScript mutates it;
  \<^item> \<open>BN_new s\<close> is \<^verbatim>\<open>new BN(s, 10)\<close>; \<open>solve\<close> is \<^verbatim>\<open>new pow.Solver().solve\<close>;
  \<^item> \<open>http_throws options\<close> is the exception that \<^verbatim>\<open>http.request(options, ...)\<close> or
    \<^verbatim>\<open>https.request(options, ...)\<close> throws for options it refuses (a header whose value
    is \<^verbatim>\<open>undefined\<close> or has a line feed, a path with a space), \<open>None\<close> where it returns
    the request.
\<close>

text \<open>
  The object \<^verbatim>\<open>url.parse\<close> returns: these twelve properties, each a string or
  \<^verbatim>\<open>null\<close> (\<open>slashes\<close> a boolean, \<open>query\<close> possibly an object), and no other.
\<close>

record url =
  url_protocol :: jsval
  url_slashes :: jsval
  url_auth :: jsval
  url_host :: jsval
  url_port :: jsval
  url_hostname :: jsval
  url_hash :: jsval
  url_search :: jsval
  url_query :: jsval
  url_pathname :: jsval
  url_path :: jsval
  url_href :: jsval

text \<open>
  The two transport modules, the agent of a client and the options of a request, with
  the headers as the list of the properties of the headers object.
\<close>

datatype http_module = Http | Https

record agent =
  agent_port :: jsval
  agent_host :: jsval
  agent_servername :: jsval

record http_options =
  opt_module :: http_module
  opt_agent :: agent
  opt_host :: jsval
  opt_hostname :: jsval
  opt_port :: jsval
  opt_method :: string
  opt_path :: string
  opt_headers :: "(string \<times> jsval) list"

record ('tx, 'script, 'bn) lib =
  JSON_parse :: "string \<Rightarrow> js_error + jsval"
  JSON_stringify :: "jsval \<Rightarrow> string"
  ToString_other :: "jsval \<Rightarrow> string"
  ToNumber :: "jsval \<Rightarrow> rat option"
  url_parse :: "string \<Rightarrow> url"
  Buffer_from_hex :: "string \<Rightarrow> js_error + byte list"
  hackchain_version :: string
  TX_version :: rat
  TX_new :: "'tx"
  compileTextArray :: "jsval list \<Rightarrow> js_error + 'script"
  BN_new :: "string \<Rightarrow> js_error + 'bn"
  tx_input :: "'tx \<Rightarrow> byte list \<Rightarrow> rat \<Rightarrow> 'script \<Rightarrow> js_error + 'tx"
  tx_output :: "'tx \<Rightarrow> 'bn \<Rightarrow> 'script \<Rightarrow> js_error + 'tx"
  tx_render :: "'tx \<Rightarrow> byte list"
  tx_hash :: "'tx \<Rightarrow> byte list"
  solve :: "jsval \<Rightarrow> js_error + byte list"
  http_throws :: "http_options \<Rightarrow> js_error option"

text \<open>
  \<^verbatim>\<open>String(v)\<close>, as string concatenation, template literals and \<^verbatim>\<open>new Error(v)\<close> apply
  it. An integer up to \<open>2^53\<close> in absolute value is a double that JavaScript prints with
  all its digits; beyond, JavaScript prints the shortest digits that read back as the same
  double, which is left to \<open>ToString_other\<close>.
\<close>

fun ToString :: "('tx, 'script, 'bn) lib \<Rightarrow> jsval \<Rightarrow> string" where
  "ToString L JUndefined = ''undefined''"
| "ToString L JNull = ''null''"
| "ToString L (JBool b) = (if b then ''true'' else ''false'')"
| "ToString L (JStr s) = s"
| "ToString L (JNum q) =
     (if q = of_int \<lfloor>q\<rfloor> \<and> \<bar>q\<bar> \<le> 2 ^ 53 then show_int \<lfloor>q\<rfloor> else ToString_other L (JNum q))"
| "ToString L v = ToString_other L v"

text \<open>
  \<^verbatim>\<open>v == n\<close> for a number \<open>n\<close>, the comparison \<^verbatim>\<open>assert.equal\<close> makes: \<^verbatim>\<open>undefined\<close>
  and \<^verbatim>\<open>null\<close> equal no number, a boolean counts as 0 or 1, a string or an object is
  converted to a number first.
\<close>

fun loose_eq_num :: "('tx, 'script, 'bn) lib \<Rightarrow> jsval \<Rightarrow> rat \<Rightarrow> bool" where
  "loose_eq_num L JUndefined n = False"
| "loose_eq_num L JNull n = False"
| "loose_eq_num L (JBool b) n = ((if b then 1 else 0) = n)"
| "loose_eq_num L (JNum m) n = (m = n)"
| "loose_eq_num L v n = (ToNumber L v = Some n)"

text \<open>\<^verbatim>\<open>assert(cond, message)\<close>.\<close>

definition assert :: "bool \<Rightarrow> string \<Rightarrow> js_error + unit" where
  "assert cond message = (if cond then Inr () else Inl (AssertionError message))"

section \<open>parseTX\<close>

text \<open>
  Lines 153 to 167, the body of the loop over \<^verbatim>\<open>data.inputs\<close>: four assertions, then
  the hash is decoded, the script compiled and the input added to the transaction.
\<close>

definition parse_input ::
  "('tx, 'script, 'bn) lib \<Rightarrow> jsval \<Rightarrow> 'tx \<Rightarrow> js_error + 'tx" where
  "parse_input L input tx =
     bindE (assert (truthy input \<and> typeof input = ''object'')
              ''Client: `tx.inputs[]` must contain Objects'') (\<lambda>_.
     bindE (get_prop input ''hash'') (\<lambda>input_hash.
     bindE (assert (typeof input_hash = ''string'')
              ''Client: `tx.inputs[].hash` must be a hex string'') (\<lambda>_.
     bindE (get_prop input ''index'') (\<lambda>input_index.
     bindE (assert (typeof input_index = ''number'')
              ''Client: `tx.inputs[].number` must be a number'') (\<lambda>_.
     bindE (get_prop input ''script'') (\<lambda>input_script.
     bindE (assert (isArray input_script)
              ''Client: `tx.inputs[].script` must be an Array'') (\<lambda>_.
     bindE (Buffer_from_hex L (str_of input_hash)) (\<lambda>hash.
     bindE (compileTextArray L (elems_of input_script)) (\<lambda>script.
     tx_input L tx hash (num_of input_index) script)))))))))"

text \<open>Lines 171 to 182, the body of the loop over \<^verbatim>\<open>data.outputs\<close>.\<close>

definition parse_output ::
  "('tx, 'script, 'bn) lib \<Rightarrow> jsval \<Rightarrow> 'tx \<Rightarrow> js_error + 'tx" where
  "parse_output L output tx =
     bindE (assert (truthy output \<and> typeof output = ''object'')
              ''Client: `tx.outputs[]` must contain Objects'') (\<lambda>_.
     bindE (get_prop output ''value'') (\<lambda>output_value.
     bindE (assert (typeof output_value = ''string'')
              ''Client: `tx.output[].value` must be a decimal string'') (\<lambda>_.
     bindE (get_prop output ''script'') (\<lambda>output_script.
     bindE (assert (isArray output_script)
              ''Client: `tx.outputs[].script` must be an Array'') (\<lambda>_.
     bindE (BN_new L (str_of output_value)) (\<lambda>value.
     bindE (compileTextArray L (elems_of output_script)) (\<lambda>script.
     tx_output L tx value script)))))))"

text \<open>The two \<^verbatim>\<open>for\<close> loops: the first exception ends the loop and the call.\<close>

fun parse_inputs ::
  "('tx, 'script, 'bn) lib \<Rightarrow> jsval list \<Rightarrow> 'tx \<Rightarrow> js_error + 'tx" where
  "parse_inputs L [] tx = Inr tx"
| "parse_inputs L (input # rest) tx = bindE (parse_input L input tx) (parse_inputs L rest)"

fun parse_outputs ::
  "('tx, 'script, 'bn) lib \<Rightarrow> jsval list \<Rightarrow> 'tx \<Rightarrow> js_error + 'tx" where
  "parse_outputs L [] tx = Inr tx"
| "parse_outputs L (output # rest) tx = bindE (parse_output L output tx) (parse_outputs L rest)"

text \<open>
  \<^verbatim>\<open>parseTX(data, callback)\<close>: \<open>Inl e\<close> is the exception it throws, \<open>Inr tx\<close> the
  transaction it passes to \<^verbatim>\<open>callback(null, tx)\<close>.
\<close>

definition parseTX :: "('tx, 'script, 'bn) lib \<Rightarrow> jsval \<Rightarrow> js_error + 'tx" where
  "parseTX L data =
     bindE (get_prop data ''version'') (\<lambda>data_version.
     bindE (assert (loose_eq_num L data_version (TX_version L))
              (''Client: version must be '' @ ToString L (JNum (TX_version L)))) (\<lambda>_.
     bindE (get_prop data ''inputs'') (\<lambda>data_inputs.
     bindE (assert (isArray data_inputs) ''Client: `tx.inputs` must be an Array'') (\<lambda>_.
     bindE (get_prop data ''outputs'') (\<lambda>data_outputs.
     bindE (assert (isArray data_outputs) ''Client: `tx.inputs` must be an Array'') (\<lambda>_.
     bindE (parse_inputs L (elems_of data_inputs) (TX_new L)) (\<lambda>tx.
     parse_outputs L (elems_of data_outputs) tx)))))))"

section \<open>The client and its requests\<close>

text \<open>Reading a property of a parsed URL by name: a name it does not have is \<^verbatim>\<open>undefined\<close>.\<close>

definition url_props :: "url \<Rightarrow> (string \<times> jsval) list" where
  "url_props u =
     [(''protocol'', url_protocol u), (''slashes'', url_slashes u), (''auth'', url_auth u),
      (''host'', url_host u), (''port'', url_port u), (''hostname'', url_hostname u),
      (''hash'', url_hash u), (''search'', url_search u), (''query'', url_query u),
      (''pathname'', url_pathname u), (''path'', url_path u), (''href'', url_href u)]"

definition url_prop :: "url \<Rightarrow> string \<Rightarrow> jsval" where
  "url_prop u p = (case map_of (url_props u) p of Some v \<Rightarrow> v | None \<Rightarrow> JUndefined)"

record client =
  host :: jsval
  http_module :: http_module
  port :: jsval
  agent :: agent
  prefix :: string
  version :: string

text \<open>The constructor, lines 18 to 32. \<^verbatim>\<open>===\<close> against a string literal is equality with it.\<close>

definition Client :: "('tx, 'script, 'bn) lib \<Rightarrow> string \<Rightarrow> client" where
  "Client L uri =
     (let parsed = url_parse L uri;
          this_host = url_prop parsed ''hostname'';
          this_module = (if url_prop parsed ''scheme'' = JStr ''http:'' then Http else Https);
          this_port = js_or (url_prop parsed ''port'')
                        (if url_prop parsed ''scheme'' = JStr ''http:'' then JNum 80 else JNum 443)
      in \<lparr>host = this_host, http_module = this_module, port = this_port,
          agent = \<lparr>agent_port = this_port, agent_host = this_host,
                    agent_servername = url_prop parsed ''host''\<rparr>,
          prefix = ''/v1'', version = hackchain_version L\<rparr>)"

text \<open>
  \<^verbatim>\<open>obj[p] = v\<close> on the list of an object's properties, and \<^verbatim>\<open>util._extend(origin, add)\<close>,
  which assigns the properties of \<open>add\<close> to \<open>origin\<close>, the last one first.
\<close>

fun set_prop :: "(string \<times> jsval) list \<Rightarrow> string \<Rightarrow> jsval \<Rightarrow> (string \<times> jsval) list" where
  "set_prop [] p v = [(p, v)]"
| "set_prop ((q, w) # kvs) p v = (if q = p then (p, v) # kvs else (q, w) # set_prop kvs p v)"

definition util_extend ::
  "(string \<times> jsval) list \<Rightarrow> (string \<times> jsval) list \<Rightarrow> (string \<times> jsval) list" where
  "util_extend origin add = fold (\<lambda>(p, v) obj. set_prop obj p v) (rev add) origin"

text \<open>
  The options \<^verbatim>\<open>request\<close> passes to \<^verbatim>\<open>this.module.request\<close>. A client has no
  property \<^verbatim>\<open>hostname\<close> (the constructor sets \<^verbatim>\<open>host\<close>), so \<^verbatim>\<open>this.hostname\<close> is
  \<^verbatim>\<open>undefined\<close>.
\<close>

definition request_options ::
  "client \<Rightarrow> string \<Rightarrow> (string \<times> jsval) list \<Rightarrow> string \<Rightarrow> http_options" where
  "request_options this req_method headers path =
     \<lparr>opt_module = http_module this, opt_agent = agent this,
      opt_host = JUndefined, opt_hostname = JUndefined, opt_port = port this,
      opt_method = req_method, opt_path = prefix this @ path,
      opt_headers =
        util_extend [(''User-Agent'', JStr (''hackchain/client_v'' @ version this)),
                     (''Content-Type'', JStr ''application/json'')] headers\<rparr>"

text \<open>
  What Node's http module delivers for one request: the response with its status code
  (the \<^verbatim>\<open>response\<close> event), chunks of its body, its end, and errors of the request.
\<close>

datatype event = Response nat | Data string | End | ReqError js_error

text \<open>
  A callback receives \<^verbatim>\<open>(err)\<close>, here \<open>Inl err\<close>, or \<^verbatim>\<open>(null, data)\<close>, here
  \<open>Inr data\<close>. What it does is a change of the caller's state \<open>'k\<close>, or an exception
  that it throws.
\<close>

type_synonym ('a, 'k) callback = "js_error + 'a \<Rightarrow> 'k \<Rightarrow> js_error + 'k"

text \<open>
  The state of one call of \<^verbatim>\<open>request\<close>: the variable \<^verbatim>\<open>once\<close>, the listeners that
  are still registered (\<^verbatim>\<open>req.once('error', done)\<close>, the response callback, which Node
  registers with \<^verbatim>\<open>once\<close>, and \<^verbatim>\<open>res.once('end', ...)\<close>), the response with the
  variable \<^verbatim>\<open>chunks\<close>, the caller's state, and the exception that has left an event
  handler uncaught, after which the process handles no further event.
\<close>

record incoming =
  statusCode :: nat
  chunks :: string
  end_listener :: bool

record 'k req_state =
  once :: bool
  error_listener :: bool
  response_listener :: bool
  res :: "incoming option"
  user :: 'k
  uncaught :: "js_error option"

definition initial :: "'k \<Rightarrow> 'k req_state" where
  "initial k = \<lparr>once = False, error_listener = True, response_listener = True,
                 res = None, user = k, uncaught = None\<rparr>"

text \<open>\<^verbatim>\<open>callback(err, data)\<close>, called from an event handler.\<close>

definition invoke :: "('a, 'k) callback \<Rightarrow> js_error + 'a \<Rightarrow> 'k req_state \<Rightarrow> 'k req_state" where
  "invoke callback r s =
     (case callback r (user s) of
        Inr k \<Rightarrow> s\<lparr>user := k\<rparr>
      | Inl e \<Rightarrow> s\<lparr>uncaught := Some e\<rparr>)"

text \<open>The closure \<^verbatim>\<open>done\<close>, lines 37 to 43.\<close>

definition done_cb :: "('a, 'k) callback \<Rightarrow> js_error + 'a \<Rightarrow> 'k req_state \<Rightarrow> 'k req_state" where
  "done_cb callback r s = (if once s then s else invoke callback r (s\<lparr>once := True\<rparr>))"

text \<open>The handler of the response's \<^verbatim>\<open>end\<close>, lines 63 to 78.\<close>

definition on_end ::
  "('tx, 'script, 'bn) lib \<Rightarrow> (jsval, 'k) callback \<Rightarrow> incoming \<Rightarrow> 'k req_state \<Rightarrow> 'k req_state" where
  "on_end L callback r s =
     (case JSON_parse L (chunks r) of
        Inl e \<Rightarrow> done_cb callback (Inl e) s
      | Inr data \<Rightarrow>
          (case get_prop data ''error'' of
             Inl e \<Rightarrow> s\<lparr>uncaught := Some e\<rparr>
           | Inr data_error \<Rightarrow>
               if truthy data_error
               then done_cb callback (Inl (Error (ToString L data_error))) s
               else if statusCode r < 200 \<or> statusCode r \<ge> 400
               then invoke callback
                      (Inl (Error (''Client: statusCode '' @ show_nat (statusCode r)))) s
               else done_cb callback (Inr data) s))"

text \<open>
  One event. An \<^verbatim>\<open>error\<close> event that finds no listener is thrown by Node; a chunk or
  an end without a listener is dropped.
\<close>

definition handle ::
  "('tx, 'script, 'bn) lib \<Rightarrow> (jsval, 'k) callback \<Rightarrow> event \<Rightarrow> 'k req_state \<Rightarrow> 'k req_state" where
  "handle L callback ev s =
     (if uncaught s \<noteq> None then s
      else case ev of
        Response status \<Rightarrow>
          if response_listener s
          then s\<lparr>response_listener := False,
                 res := Some \<lparr>statusCode = status, chunks = [], end_listener = True\<rparr>\<rparr>
          else s
      | Data chunk \<Rightarrow>
          (case res s of
             None \<Rightarrow> s
           | Some r \<Rightarrow> s\<lparr>res := Some (r\<lparr>chunks := chunks r @ chunk\<rparr>)\<rparr>)
      | End \<Rightarrow>
          (case res s of
             None \<Rightarrow> s
           | Some r \<Rightarrow>
               if end_listener r
               then on_end L callback r (s\<lparr>res := Some (r\<lparr>end_listener := False\<rparr>)\<rparr>)
               else s)
      | ReqError e \<Rightarrow>
          if error_listener s
          then done_cb callback (Inl e) (s\<lparr>error_listener := False\<rparr>)
          else s\<lparr>uncaught := Some e\<rparr>)"

text \<open>
  \<^verbatim>\<open>request\<close> returns the request object: its options, its callback and the state
  above. Where \<^verbatim>\<open>this.module.request\<close> refuses the options it throws, and so does
  \<^verbatim>\<open>request\<close>: there is no request object then, nothing is sent and no handler is
  registered. \<^verbatim>\<open>req.end(body)\<close> sends the request; the network \<open>net\<close> answers what was
  sent with the events that the handlers then see, in order.
\<close>

record 'k client_request =
  req_options :: http_options
  req_callback :: "(jsval, 'k) callback"
  req_state :: "'k req_state"

record sent =
  sent_options :: http_options
  sent_body :: "string option"

definition request ::
  "('tx, 'script, 'bn) lib \<Rightarrow> client \<Rightarrow> string \<Rightarrow> (string \<times> jsval) list \<Rightarrow> string
     \<Rightarrow> (jsval, 'k) callback \<Rightarrow> 'k \<Rightarrow> js_error + 'k client_request" where
  "request L this req_method headers path callback k =
     (case http_throws L (request_options this req_method headers path) of
        Some e \<Rightarrow> Inl e
      | None \<Rightarrow>
          Inr \<lparr>req_options = request_options this req_method headers path,
               req_callback = callback, req_state = initial k\<rparr>)"

definition req_end ::
  "('tx, 'script, 'bn) lib \<Rightarrow> (sent \<Rightarrow> event list) \<Rightarrow> string option \<Rightarrow> 'k client_request
     \<Rightarrow> 'k req_state" where
  "req_end L net body req =
     fold (handle L (req_callback req))
       (net \<lparr>sent_options = req_options req, sent_body = body\<rparr>) (req_state req)"

text \<open>
  The functions of the client that make a request: \<open>Inl e\<close> is the exception thrown to
  the caller before anything is sent, \<open>Inr s\<close> the state of the request after the
  events of the network.
\<close>

definition get ::
  "('tx, 'script, 'bn) lib \<Rightarrow> client \<Rightarrow> (sent \<Rightarrow> event list) \<Rightarrow> string
     \<Rightarrow> (jsval, 'k) callback \<Rightarrow> 'k \<Rightarrow> js_error + 'k req_state" where
  "get L this net path callback k =
     bindE (request L this ''GET'' [] path callback k) (\<lambda>req.
     Inr (req_end L net None req))"



definition getInfo ::
  "('tx, 'script, 'bn) lib \<Rightarrow> client \<Rightarrow> (sent \<Rightarrow> event list)
     \<Rightarrow> (jsval, 'k) callback \<Rightarrow> 'k \<Rightarrow> js_error + 'k req_state" where
  "getInfo L this net callback k = get L this net ''/'' callback k"

definition getComplexity ::
  "('tx, 'script, 'bn) lib \<Rightarrow> client \<Rightarrow> (sent \<Rightarrow> event list)
     \<Rightarrow> (jsval, 'k) callback \<Rightarrow> 'k \<Rightarrow> js_error + 'k req_state" where
  "getComplexity L this net callback k =
     getInfo L this net
       (\<lambda>r. case r of
              Inl err \<Rightarrow> callback (Inl err)
            | Inr info \<Rightarrow>
                (case get_prop info ''proof-of-work-complexity'' of
                   Inl e \<Rightarrow> (\<lambda>k. Inl e)
                 | Inr complexity \<Rightarrow> callback (Inr (js_or complexity (JNum 0))))) k"

definition getNonce ::
  "('tx, 'script, 'bn) lib \<Rightarrow> client \<Rightarrow> (sent \<Rightarrow> event list)
     \<Rightarrow> (string, 'k) callback \<Rightarrow> 'k \<Rightarrow> js_error + 'k req_state" where
  "getNonce L this net callback k =
     getComplexity L this net
       (\<lambda>r. case r of
              Inl err \<Rightarrow> callback (Inl err)
            | Inr complexity \<Rightarrow>
                (case solve L complexity of
                   Inl e \<Rightarrow> (\<lambda>k. Inl e)
                 | Inr nonce \<Rightarrow>
                     callback (Inr (ToString L complexity @ '':'' @ toString_hex nonce)))) k"

text \<open>
  What the caller of such a function has in the end: the exception thrown to it, or
  the state that the calls of its callback have made.
\<close>

definition outcome :: "js_error + 'k req_state \<Rightarrow> js_error + 'k" where
  "outcome r = (case r of Inl e \<Rightarrow> Inl e | Inr s \<Rightarrow> Inr (user s))"

text \<open>The callback that records what it is called with, oldest call first.\<close>

definition record_call :: "('a, (js_error + 'a) list) callback" where
  "record_call r calls = Inr (calls @ [r])"

section \<open>A test double for the libraries\<close>

text \<open>
  To run the client on concrete inputs the libraries are replaced by a double: a
  transaction records the arguments \<^verbatim>\<open>input\<close> and \<^verbatim>\<open>output\<close> are called with and
  refuses none, a script is its tokens, a big number is the integer that a string of
  decimal digits with an optional minus sign denotes (another character is refused),
  \<^verbatim>\<open>JSON.parse\<close> knows the listed bodies and their values and no other body,
  \<^verbatim>\<open>JSON.stringify\<close> knows objects of one string property, \<^verbatim>\<open>url.parse\<close> returns what
  it returns for \<^verbatim>\<open>http://localhost/\<close>, a hex string is decoded up to its first
  character that is not a hex digit, and the http module refuses the headers whose value
  is \<^verbatim>\<open>undefined\<close> and nothing else.
\<close>

record recorded_tx =
  tx_inputs :: "(byte list \<times> rat \<times> jsval list) list"
  tx_outputs :: "(int \<times> jsval list) list"

definition hex_val :: "char \<Rightarrow> nat option" where
  "hex_val c =
     (if c \<in> set ''0123456789'' then Some (of_char c - 48)
      else if c \<in> set ''abcdef'' then Some (of_char c - 87)
      else if c \<in> set ''ABCDEF'' then Some (of_char c - 55)
      else None)"

fun from_hex :: "string \<Rightarrow> byte list" where
  "from_hex (a # b # rest) =
     (case (hex_val a, hex_val b) of
        (Some x, Some y) \<Rightarrow> of_nat (16 * x + y) # from_hex rest
      | _ \<Rightarrow> [])"
| "from_hex rest = []"

fun parse_digits :: "nat \<Rightarrow> string \<Rightarrow> js_error + nat" where
  "parse_digits acc [] = Inr acc"
| "parse_digits acc (c # cs) =
     (if c \<in> set ''0123456789'' then parse_digits (10 * acc + (of_char c - 48)) cs
      else Inl (AssertionError ''Invalid character''))"

definition parse_decimal :: "string \<Rightarrow> js_error + int" where
  "parse_decimal s =
     (case s of
        CHR ''-'' # ds \<Rightarrow> bindE (parse_digits 0 ds) (\<lambda>n. Inr (- int n))
      | _ \<Rightarrow> bindE (parse_digits 0 s) (\<lambda>n. Inr (int n)))"

definition quoted :: "string \<Rightarrow> string" where
  "quoted s = CHR 0x22 # s @ [CHR 0x22]"

definition test_lib :: "(string \<times> jsval) list \<Rightarrow> (recorded_tx, jsval list, int) lib" where
  "test_lib bodies =
     \<lparr>JSON_parse = (\<lambda>s. case map_of bodies s of Some v \<Rightarrow> Inr v | None \<Rightarrow> Inl (SyntaxError s)),
      JSON_stringify = (\<lambda>v. case v of
          JObj [(k, JStr s)] \<Rightarrow> ''{'' @ quoted k @ '':'' @ quoted s @ ''}''
        | _ \<Rightarrow> ''null''),
      ToString_other = (\<lambda>v. ''[object Object]''),
      ToNumber = (\<lambda>v. None),
      url_parse = (\<lambda>uri.
        \<lparr>url_protocol = JStr ''http:'', url_slashes = JBool True, url_auth = JNull,
         url_host = JStr ''localhost'', url_port = JNull, url_hostname = JStr ''localhost'',
         url_hash = JNull, url_search = JNull, url_query = JNull,
         url_pathname = JStr ''/'', url_path = JStr ''/'', url_href = JStr uri\<rparr>),
      Buffer_from_hex = (\<lambda>s. Inr (from_hex s)),
      hackchain_version = ''1.0.0'',
      TX_version = 1,
      TX_new = \<lparr>tx_inputs = [], tx_outputs = []\<rparr>,
      compileTextArray = Inr,
      BN_new = parse_decimal,
      tx_input = (\<lambda>tx hash index script.
        Inr (tx\<lparr>tx_inputs := tx_inputs tx @ [(hash, index, script)]\<rparr>)),
      tx_output = (\<lambda>tx v script. Inr (tx\<lparr>tx_outputs := tx_outputs tx @ [(v, script)]\<rparr>)),
      tx_render = (\<lambda>tx. [1, of_nat (length (tx_inputs tx)), of_nat (length (tx_outputs tx))]),
      tx_hash = (\<lambda>tx. [171, of_nat (length (tx_inputs tx)), of_nat (length (tx_outputs tx))]),
      solve = (\<lambda>complexity. Inr [222, 173]),
      http_throws = (\<lambda>options.
        case find (\<lambda>(name, v). v = JUndefined) (opt_headers options) of
          Some (name, v) \<Rightarrow> Some (HeaderError name)
        | None \<Rightarrow> None)\<rparr>"

text \<open>The state of a request as another caller's state shows it, for comparing two callbacks.\<close>

definition map_user :: "('k \<Rightarrow> 'j) \<Rightarrow> 'k req_state \<Rightarrow> 'j req_state" where
  "map_user h s =
     \<lparr>once = once s, error_listener = error_listener s,
      response_listener = response_listener s, res = res s,
      user = h (user s), uncaught = uncaught s\<rparr>"

section \<open>Basic facts\<close>

lemma bindE_simps [simp]:
  "bindE (Inl e) f = Inl e"
  "bindE (Inr x) f = f x"
  by (simp_all add: bindE_def)

lemma bindE_assoc: "bindE (bindE r f) g = bindE r (\<lambda>x. bindE (f x) g)"
  by (cases r) simp_all

lemma assert_simps [simp]:
  "assert True m = Inr ()"
  "assert False m = Inl (AssertionError m)"
  by (simp_all add: assert_def)

lemma parse_inputs_append:
  "parse_inputs L (pre @ suf) tx = bindE (parse_inputs L pre tx) (parse_inputs L suf)"
  by (induction pre arbitrary: tx) (simp_all add: bindE_def split: sum.splits)

lemma parse_outputs_append:
  "parse_outputs L (pre @ suf) tx = bindE (parse_outputs L pre tx) (parse_outputs L suf)"
  by (induction pre arbitrary: tx) (simp_all add: bindE_def split: sum.splits)

text \<open>The loop bodies on an object, by the type of the fields under test.\<close>

lemma parse_input_index:
  assumes "truthy input" and "typeof input = ''object''"
    and "get_prop input ''hash'' = Inr hv"
    and "get_prop input ''index'' = Inr idx"
    and "get_prop input ''script'' = Inr scr"
  shows "parse_input L input tx =
     bindE (assert (typeof hv = ''string'')
              ''Client: `tx.inputs[].hash` must be a hex string'') (\<lambda>_.
     (case idx of
        JNum i \<Rightarrow>
          bindE (assert (isArray scr) ''Client: `tx.inputs[].script` must be an Array'') (\<lambda>_.
          bindE (Buffer_from_hex L (str_of hv)) (\<lambda>hash.
          bindE (compileTextArray L (elems_of scr)) (\<lambda>script.
          tx_input L tx hash i script)))
      | _ \<Rightarrow> Inl (AssertionError ''Client: `tx.inputs[].number` must be a number'')))"
  using assms by (cases idx) (simp_all add: parse_input_def assert_def)

lemma parse_output_value:
  assumes "truthy output" and "typeof output = ''object''"
    and "get_prop output ''value'' = Inr val"
    and "get_prop output ''script'' = Inr scr"
  shows "parse_output L output tx =
     (case val of
        JStr s \<Rightarrow>
          bindE (assert (isArray scr) ''Client: `tx.outputs[].script` must be an Array'') (\<lambda>_.
          bindE (BN_new L s) (\<lambda>v.
          bindE (compileTextArray L (elems_of scr)) (\<lambda>script.
          tx_output L tx v script)))
      | _ \<Rightarrow> Inl (AssertionError ''Client: `tx.output[].value` must be a decimal string''))"
  using assms by (cases val) (simp_all add: parse_output_def)

section \<open>The version check of parseTX\<close>

text \<open>
  C3. \<^verbatim>\<open>parseTX\<close> starts with \<^verbatim>\<open>assert.equal(data.version, TX.version, ...)\<close>, whatever
  the input: every input whose \<open>version\<close> is not \<^verbatim>\<open>==\<close> to \<open>TX.version\<close> is
  rejected with the assertion error \<open>Client: version must be <TX.version>\<close>. An
  input without a \<open>version\<close> field reads as \<^verbatim>\<open>undefined\<close>, which equals no number,
  so it is rejected too: the check does not depend on the field being present.
\<close>

theorem parseTX_version_check:
  assumes "get_prop data ''version'' = Inr ver"
    and "ver = JUndefined \<or> ver = JNull \<or> (\<exists>m. ver = JNum m \<and> m \<noteq> TX_version L)
         \<or> \<not> loose_eq_num L ver (TX_version L)"
  shows "parseTX L data =
     Inl (AssertionError (''Client: version must be '' @ ToString L (JNum (TX_version L))))"
proof -
  from assms(2) have "\<not> loose_eq_num L ver (TX_version L)"
    by auto
  with assms(1) show ?thesis
    by (simp add: parseTX_def)
qed

theorem parseTX_version_check_witness:
  "parseTX (test_lib []) (JObj [(''version'', JNum 2), (''inputs'', JArr []), (''outputs'', JArr [])])
     = Inl (AssertionError ''Client: version must be 1'')
   \<and> parseTX (test_lib []) (JObj [(''inputs'', JArr [JNull]), (''outputs'', JArr [])])
     = Inl (AssertionError ''Client: version must be 1'')"
  using parseTX_version_check [of "JObj [(''version'', JNum 2), (''inputs'', JArr []), (''outputs'', JArr [])]"
      "JNum 2" "test_lib []"]
    parseTX_version_check [of "JObj [(''inputs'', JArr [JNull]), (''outputs'', JArr [])]"
      JUndefined "test_lib []"]
  by (simp add: test_lib_def show_int_def show_nat.simps digit_char_def)

text \<open>The claim as the specification has it fails on an input that has no version field.\<close>

theorem parseTX_missing_version_counterexample:
  "parseTX (test_lib []) (JObj [(''inputs'', JArr []), (''outputs'', JArr [])])
     = Inl (AssertionError ''Client: version must be 1'')"
  by (simp add: parseTX_def test_lib_def show_int_def show_nat.simps digit_char_def)

section \<open>The checks of parseTX on inputs and outputs\<close>

text \<open>
  C6. Of the \<open>index\<close> of an input \<^verbatim>\<open>parseTX\<close> checks only
  \<^verbatim>\<open>typeof input.index == 'number'\<close>. Where the checks before it pass (the version,
  the two arrays, the inputs before this one, the input an object, its \<open>hash\<close> a
  string), an index that is not a number, or is missing, is rejected with the assertion
  error \<open>Client: `tx.inputs[].number` must be a number\<close>, whatever the \<open>script\<close> of the
  input is; and an index that is a number passes: after the check of the script it is
  handed unchanged to \<^verbatim>\<open>tx.input\<close>, negative or fractional as it may be, and what
  happens then is what the libraries do with it.
\<close>

theorem parseTX_index_check:
  assumes "get_prop data ''version'' = Inr ver" and "loose_eq_num L ver (TX_version L)"
    and "get_prop data ''inputs'' = Inr (JArr (pre @ input # suf))"
    and "get_prop data ''outputs'' = Inr (JArr outputs)"
    and "parse_inputs L pre (TX_new L) = Inr tx"
    and "truthy input" and "typeof input = ''object''"
    and "get_prop input ''hash'' = Inr hv"
    and "get_prop input ''index'' = Inr idx"
    and "get_prop input ''script'' = Inr scr"
  shows "parseTX L data =
     bindE (assert (typeof hv = ''string'')
              ''Client: `tx.inputs[].hash` must be a hex string'') (\<lambda>_.
     (case idx of
        JNum i \<Rightarrow>
          bindE (assert (isArray scr) ''Client: `tx.inputs[].script` must be an Array'') (\<lambda>_.
          bindE (Buffer_from_hex L (str_of hv)) (\<lambda>hash.
          bindE (compileTextArray L (elems_of scr)) (\<lambda>script.
          bindE (tx_input L tx hash i script) (\<lambda>tx'.
          bindE (parse_inputs L suf tx') (parse_outputs L outputs)))))
      | _ \<Rightarrow> Inl (AssertionError ''Client: `tx.inputs[].number` must be a number'')))"
proof -
  have "parseTX L data =
      bindE (bindE (parse_input L input tx) (parse_inputs L suf)) (parse_outputs L outputs)"
    using assms(1-5) by (simp add: parseTX_def parse_inputs_append)
  then show ?thesis
    unfolding parse_input_index [OF assms(6-10)]
    by (cases idx; cases "typeof hv = ''string''"; cases "isArray scr")
      (simp_all add: bindE_assoc)
qed

theorem parseTX_index_check_witness:
  "parseTX (test_lib [])
     (JObj [(''version'', JNum 1),
            (''inputs'', JArr [JObj [(''hash'', JStr ''00ff''), (''index'', JNum (- 2)),
                                     (''script'', JArr [JStr ''push'']) ]]),
            (''outputs'', JArr [])])
     = Inr \<lparr>tx_inputs = [([0, 255], - 2, [JStr ''push''])], tx_outputs = []\<rparr>
   \<and> parseTX (test_lib [])
     (JObj [(''version'', JNum 1),
            (''inputs'', JArr [JObj [(''hash'', JStr ''00ff''), (''index'', JStr ''0'')]]),
            (''outputs'', JArr [])])
     = Inl (AssertionError ''Client: `tx.inputs[].number` must be a number'')"
  using parseTX_index_check [of
      "JObj [(''version'', JNum 1),
            (''inputs'', JArr [JObj [(''hash'', JStr ''00ff''), (''index'', JNum (- 2)),
                                     (''script'', JArr [JStr ''push'']) ]]),
            (''outputs'', JArr [])]"
      "JNum 1" "test_lib []" "[]"
      "JObj [(''hash'', JStr ''00ff''), (''index'', JNum (- 2)), (''script'', JArr [JStr ''push''])]"
      "[]" "[]" "\<lparr>tx_inputs = [], tx_outputs = []\<rparr>" "JStr ''00ff''" "JNum (- 2)"
      "JArr [JStr ''push'']"]
    parseTX_index_check [of
      "JObj [(''version'', JNum 1),
            (''inputs'', JArr [JObj [(''hash'', JStr ''00ff''), (''index'', JStr ''0'')]]),
            (''outputs'', JArr [])]"
      "JNum 1" "test_lib []" "[]"
      "JObj [(''hash'', JStr ''00ff''), (''index'', JStr ''0'')]"
      "[]" "[]" "\<lparr>tx_inputs = [], tx_outputs = []\<rparr>" "JStr ''00ff''" "JStr ''0''"
      JUndefined]
  by (simp add: test_lib_def hex_val_def)

text \<open>
  The claim as the specification has it fails on a negative index and on an index that is
  not an integer: with a transaction library that refuses nothing both transactions are
  built.
\<close>

theorem parseTX_index_counterexample:
  "parseTX (test_lib [])
     (JObj [(''version'', JNum 1),
            (''inputs'',
             JArr [JObj [(''hash'', JStr ''0000000000000000000000000000000000000000000000000000000000000000''),
                         (''index'', JNum (- 1)), (''script'', JArr [])]]),
            (''outputs'', JArr [])])
     = Inr \<lparr>tx_inputs = [(
               [0, 0, 0, 0, 0, 0, 0, 0, 0, 0, 0, 0, 0, 0, 0, 0, 0, 0, 0, 0, 0, 0, 0, 0, 0, 0, 0, 0, 0, 0, 0, 0], - 1, [])],
            tx_outputs = []\<rparr>
   \<and> parseTX (test_lib [])
     (JObj [(''version'', JNum 1),
            (''inputs'',
             JArr [JObj [(''hash'', JStr ''0000000000000000000000000000000000000000000000000000000000000000''),
                         (''index'', JNum (1 / 2)), (''script'', JArr [])]]),
            (''outputs'', JArr [])])
     = Inr \<lparr>tx_inputs = [(
               [0, 0, 0, 0, 0, 0, 0, 0, 0, 0, 0, 0, 0, 0, 0, 0, 0, 0, 0, 0, 0, 0, 0, 0, 0, 0, 0, 0, 0, 0, 0, 0], 1 / 2, [])],
            tx_outputs = []\<rparr>"
  by (simp add: parseTX_def parse_input_def test_lib_def hex_val_def)

text \<open>
  C5. Of the \<open>value\<close> of an output \<^verbatim>\<open>parseTX\<close> checks only
  \<^verbatim>\<open>typeof output.value == 'string'\<close>. Where the checks before it pass (the version,
  the two arrays, the inputs, the outputs before this one, the output an object), a
  value that is not a string, or is missing, is rejected with the assertion error
  \<open>Client: `tx.output[].value` must be a decimal string\<close>, whatever the \<open>script\<close> of
  the output is; and a string passes: after the check of the script it is handed
  unchanged to \<^verbatim>\<open>new BN(value, 10)\<close>, whatever its characters. \<^verbatim>\<open>parseTX\<close> has no
  check of its own on digits or sign.
\<close>

theorem parseTX_value_check:
  assumes "get_prop data ''version'' = Inr ver" and "loose_eq_num L ver (TX_version L)"
    and "get_prop data ''inputs'' = Inr (JArr inputs)"
    and "get_prop data ''outputs'' = Inr (JArr (pre @ output # suf))"
    and "parse_inputs L inputs (TX_new L) = Inr tx0"
    and "parse_outputs L pre tx0 = Inr tx"
    and "truthy output" and "typeof output = ''object''"
    and "get_prop output ''value'' = Inr val"
    and "get_prop output ''script'' = Inr scr"
  shows "parseTX L data =
     (case val of
        JStr s \<Rightarrow>
          bindE (assert (isArray scr) ''Client: `tx.outputs[].script` must be an Array'') (\<lambda>_.
          bindE (BN_new L s) (\<lambda>v.
          bindE (compileTextArray L (elems_of scr)) (\<lambda>script.
          bindE (tx_output L tx v script) (parse_outputs L suf))))
      | _ \<Rightarrow> Inl (AssertionError ''Client: `tx.output[].value` must be a decimal string''))"
proof -
  have "parseTX L data = bindE (parse_output L output tx) (parse_outputs L suf)"
    using assms(1-6) by (simp add: parseTX_def parse_outputs_append)
  then show ?thesis
    unfolding parse_output_value [OF assms(7-10)]
    by (cases val; cases "isArray scr") (simp_all add: bindE_assoc)
qed

theorem parseTX_value_check_witness:
  "parseTX (test_lib [])
     (JObj [(''version'', JNum 1), (''inputs'', JArr []),
            (''outputs'', JArr [JObj [(''value'', JStr ''1000''), (''script'', JArr [])]])])
     = Inr \<lparr>tx_inputs = [], tx_outputs = [(1000, [])]\<rparr>
   \<and> parseTX (test_lib [])
     (JObj [(''version'', JNum 1), (''inputs'', JArr []),
            (''outputs'', JArr [JObj [(''value'', JNum 1000)]])])
     = Inl (AssertionError ''Client: `tx.output[].value` must be a decimal string'')"
  using parseTX_value_check [of
      "JObj [(''version'', JNum 1), (''inputs'', JArr []),
            (''outputs'', JArr [JObj [(''value'', JStr ''1000''), (''script'', JArr [])]])]"
      "JNum 1" "test_lib []" "[]" "[]"
      "JObj [(''value'', JStr ''1000''), (''script'', JArr [])]" "[]"
      "\<lparr>tx_inputs = [], tx_outputs = []\<rparr>" "\<lparr>tx_inputs = [], tx_outputs = []\<rparr>"
      "JStr ''1000''" "JArr []"]
    parseTX_value_check [of
      "JObj [(''version'', JNum 1), (''inputs'', JArr []),
            (''outputs'', JArr [JObj [(''value'', JNum 1000)]])]"
      "JNum 1" "test_lib []" "[]" "[]"
      "JObj [(''value'', JNum 1000)]" "[]"
      "\<lparr>tx_inputs = [], tx_outputs = []\<rparr>" "\<lparr>tx_inputs = [], tx_outputs = []\<rparr>"
      "JNum 1000" JUndefined]
  by (simp add: test_lib_def parse_decimal_def)

text \<open>
  The claim as the specification has it fails on a negative value: \<^verbatim>\<open>parseTX\<close> hands
  the string \<open>-5\<close> to the big number library, which reads it as the integer \<open>-5\<close>, and
  the transaction is built.
\<close>

theorem parseTX_value_counterexample:
  "parseTX (test_lib [])
     (JObj [(''version'', JNum 1), (''inputs'', JArr []),
            (''outputs'', JArr [JObj [(''value'', JStr ''-5''), (''script'', JArr [])]])])
     = Inr \<lparr>tx_inputs = [], tx_outputs = [(- 5, [])]\<rparr>"
  by (simp add: parseTX_def parse_output_def test_lib_def parse_decimal_def)

section \<open>The messages of parseTX\<close>

text \<open>
  C7. The assertion on \<^verbatim>\<open>data.outputs\<close> (line 148) carries the message of the assertion
  on \<^verbatim>\<open>data.inputs\<close> (line 147): an \<open>outputs\<close> field that is not an array is reported
  as \<open>Client: `tx.inputs` must be an Array\<close>, whatever the libraries. An input without
  \<open>index\<close> is reported under the name \<open>number\<close> (line 159).
\<close>

theorem parseTX_outputs_message:
  "parseTX L (JObj [(''version'', JNum (TX_version L)), (''inputs'', JArr []),
                    (''outputs'', JNum 5)])
     = Inl (AssertionError ''Client: `tx.inputs` must be an Array'')
   \<and> parseTX L (JObj [(''version'', JNum (TX_version L)),
                      (''inputs'', JArr [JObj [(''hash'', JStr ''00ff''), (''script'', JArr [])]]),
                      (''outputs'', JArr [])])
     = Inl (AssertionError ''Client: `tx.inputs[].number` must be a number'')"
  by (simp add: parseTX_def parse_input_def)

section \<open>The constructor\<close>

text \<open>
  C4. The object that \<^verbatim>\<open>url.parse\<close> returns has no property \<open>scheme\<close>, so
  \<^verbatim>\<open>parsed.scheme\<close> is \<^verbatim>\<open>undefined\<close> and \<^verbatim>\<open>parsed.scheme === 'http:'\<close> is false for
  every URI, whatever its protocol: the client always takes the https module, and its
  port is the port of the URI or, where the URI has none, 443.
\<close>

theorem Client_always_https:
  "url_prop (url_parse L uri) ''scheme'' = JUndefined
   \<and> http_module (Client L uri) = Https
   \<and> port (Client L uri) = js_or (url_port (url_parse L uri)) (JNum 443)
   \<and> (url_port (url_parse L uri) = JNull \<longrightarrow> port (Client L uri) = JNum 443)"
  by (simp add: Client_def url_prop_def url_props_def Let_def js_or_def)

theorem Client_always_https_witness:
  "url_protocol (url_parse (test_lib []) ''http://localhost/'') = JStr ''http:''
   \<and> url_port (url_parse (test_lib []) ''http://localhost/'') = JNull
   \<and> http_module (Client (test_lib []) ''http://localhost/'') = Https
   \<and> port (Client (test_lib []) ''http://localhost/'') = JNum 443"
  using Client_always_https [of "test_lib []" "''http://localhost/''"]
  by (simp add: test_lib_def js_or_def)

section \<open>One request\<close>

lemma fold_handle_Data:
  assumes "uncaught s = None" and "res s = Some r"
  shows "fold (handle L callback) (map Data cs) s
     = s\<lparr>res := Some (r\<lparr>chunks := chunks r @ concat cs\<rparr>)\<rparr>"
  using assms by (induction cs arbitrary: s r) (simp_all add: handle_def)

lemma request_Inr:
  assumes "request L this req_method headers path callback k = Inr req"
  shows "req = \<lparr>req_options = request_options this req_method headers path,
                 req_callback = callback, req_state = initial k\<rparr>"
    and "http_throws L (request_options this req_method headers path) = None"
  using assms by (auto simp: request_def split: option.splits)

text \<open>
  C2. A response whose body decodes to a value with a truthy \<open>error\<close> field makes the
  request fail with \<^verbatim>\<open>new Error(data.error)\<close>, for every status code: the test of
  \<^verbatim>\<open>data.error\<close> on line 71 comes before the test of the status code on line 74. For a
  non-empty string the message is that string. The request is any that \<^verbatim>\<open>request\<close>
  returns, sent with any body.
\<close>

theorem request_error_field_first:
  assumes "request L this req_method headers path record_call [] = Inr req"
    and "net \<lparr>sent_options = req_options req, sent_body = body\<rparr>
             = Response status # map Data cs @ [End]"
    and "JSON_parse L (concat cs) = Inr data"
    and "get_prop data ''error'' = Inr err"
    and "truthy err"
  shows "user (req_end L net body req) = [Inl (Error (ToString L err))]
         \<and> uncaught (req_end L net body req) = None
         \<and> (\<forall>message. err = JStr message \<longrightarrow>
              user (req_end L net body req) = [Inl (Error message)])"
proof -
  let ?r0 = "\<lparr>statusCode = status, chunks = [], end_listener = True\<rparr>"
  let ?s1 = "\<lparr>once = False, error_listener = True, response_listener = False,
      res = Some ?r0, user = [] :: (js_error + jsval) list, uncaught = None\<rparr>"
  have s1: "handle L record_call (Response status) (initial []) = ?s1"
    by (simp add: handle_def initial_def)
  have s2: "fold (handle L record_call) (map Data cs) ?s1
      = ?s1\<lparr>res := Some (?r0\<lparr>chunks := chunks ?r0 @ concat cs\<rparr>)\<rparr>"
    by (rule fold_handle_Data) simp_all
  have "req_end L net body req
      = handle L record_call End (fold (handle L record_call) (map Data cs) ?s1)"
    using assms(2) by (simp add: req_end_def request_Inr(1) [OF assms(1)] s1)
  also have "\<dots> = \<lparr>once = True, error_listener = True, response_listener = False,
      res = Some \<lparr>statusCode = status, chunks = concat cs, end_listener = False\<rparr>,
      user = [Inl (Error (ToString L err))], uncaught = None\<rparr>"
    unfolding s2 using assms(3-5)
    by (simp add: handle_def on_end_def done_cb_def invoke_def record_call_def)
  finally show ?thesis
    by simp
qed

theorem request_error_field_first_witness:
  "request (test_lib [(''{'' @ quoted ''error'' @ '':'' @ quoted ''rejected'' @ ''}'',
                       JObj [(''error'', JStr ''rejected'')])])
      (Client (test_lib []) ''http://localhost/'') ''GET'' [] ''/tx/00'' record_call []
     = Inr \<lparr>req_options =
              request_options (Client (test_lib []) ''http://localhost/'') ''GET'' [] ''/tx/00'',
            req_callback = record_call, req_state = initial []\<rparr>
   \<and> user (req_end (test_lib [(''{'' @ quoted ''error'' @ '':'' @ quoted ''rejected'' @ ''}'',
                             JObj [(''error'', JStr ''rejected'')])])
           (\<lambda>sent. [Response 200, Data (''{'' @ quoted ''error'' @ '':'' @ quoted ''rejected'' @ ''}''), End])
           None
           \<lparr>req_options =
              request_options (Client (test_lib []) ''http://localhost/'') ''GET'' [] ''/tx/00'',
            req_callback = record_call, req_state = initial []\<rparr>)
     = [Inl (Error ''rejected'')]"
proof -
  let ?L = "test_lib [(''{'' @ quoted ''error'' @ '':'' @ quoted ''rejected'' @ ''}'',
                       JObj [(''error'', JStr ''rejected'')])]"
  let ?client = "Client (test_lib []) ''http://localhost/''"
  let ?req = "\<lparr>req_options = request_options ?client ''GET'' [] ''/tx/00'',
      req_callback = record_call :: (jsval, (js_error + jsval) list) callback,
      req_state = initial []\<rparr>"
  let ?net = "\<lambda>sent :: sent.
      [Response 200, Data (''{'' @ quoted ''error'' @ '':'' @ quoted ''rejected'' @ ''}''), End]"
  have a: "request ?L ?client ''GET'' [] ''/tx/00'' record_call [] = Inr ?req"
    by (simp add: request_def request_options_def util_extend_def test_lib_def)
  have b: "?net \<lparr>sent_options = req_options ?req, sent_body = None\<rparr>
      = Response 200 # map Data [''{'' @ quoted ''error'' @ '':'' @ quoted ''rejected'' @ ''}''] @ [End]"
    by simp
  have c: "JSON_parse ?L (concat [''{'' @ quoted ''error'' @ '':'' @ quoted ''rejected'' @ ''}''])
      = Inr (JObj [(''error'', JStr ''rejected'')])"
    by (simp add: test_lib_def)
  have d: "get_prop (JObj [(''error'', JStr ''rejected'')]) ''error'' = Inr (JStr ''rejected'')"
    by simp
  have e: "truthy (JStr ''rejected'')"
    by simp
  from request_error_field_first [OF a b c d e] a show ?thesis
    by simp
qed

text \<open>
  Whatever the libraries: a response whose status is outside 200 to 399 and whose body
  decodes to a value without a truthy \<open>error\<close>, followed by an error of the request,
  calls the callback twice.
\<close>

lemma status_error_then_request_error:
  assumes "JSON_parse L body = Inr data"
    and "get_prop data ''error'' = Inr err" and "\<not> truthy err"
    and "status < 200 \<or> 400 \<le> status"
  shows "user (fold (handle L record_call) [Response status, Data body, End, ReqError e]
                (initial []))
     = [Inl (Error (''Client: statusCode '' @ show_nat status)), Inl e]"
  using assms
  by (auto simp: initial_def handle_def on_end_def done_cb_def invoke_def record_call_def)

lemma get_fold:
  "get L this net path callback k =
     (case http_throws L (request_options this ''GET'' [] path) of
        Some e \<Rightarrow> Inl e
      | None \<Rightarrow>
          Inr (fold (handle L callback)
                 (net \<lparr>sent_options = request_options this ''GET'' [] path, sent_body = None\<rparr>)
                 (initial k)))"
  by (simp add: get_def request_def req_end_def split: option.splits)


lemma test_lib_accepts_plain [simp]:
  "http_throws (test_lib bodies) (request_options this req_method [] path) = None"
  by (simp add: test_lib_def request_options_def util_extend_def)

text \<open>
  C1. The status code error (line 75) goes to \<^verbatim>\<open>callback\<close>, not to \<^verbatim>\<open>done\<close>: it
  neither tests nor sets \<^verbatim>\<open>once\<close>. A response with status 500 and a transport error
  for the same request, in either order, reach the callback both. And a body that
  decodes to \<^verbatim>\<open>null\<close> makes \<^verbatim>\<open>data.error\<close> throw inside the handler: the callback is
  never called.
\<close>

theorem request_callback_not_once:
  "outcome (get (test_lib [(''{}'', JObj [])]) (Client (test_lib []) ''http://localhost/'')
           (\<lambda>sent. [Response 500, Data ''{}'', End, ReqError (Error ''read ECONNRESET'')])
           ''/'' record_call [])
     = Inr [Inl (Error ''Client: statusCode 500''), Inl (Error ''read ECONNRESET'')]
   \<and> outcome (get (test_lib [(''{}'', JObj [])]) (Client (test_lib []) ''http://localhost/'')
           (\<lambda>sent. [ReqError (Error ''read ECONNRESET''), Response 500, Data ''{}'', End])
           ''/'' record_call [])
     = Inr [Inl (Error ''read ECONNRESET''), Inl (Error ''Client: statusCode 500'')]
   \<and> get (test_lib [(''null'', JNull)]) (Client (test_lib []) ''http://localhost/'')
           (\<lambda>sent. [Response 200, Data ''null'', End])
           ''/'' (record_call :: (jsval, (js_error + jsval) list) callback) []
     = Inr \<lparr>once = False, error_listener = True, response_listener = False,
            res = Some \<lparr>statusCode = 200, chunks = ''null'', end_listener = False\<rparr>,
            user = [], uncaught = Some (TypeError ''error'')\<rparr>"
proof -
  have "JSON_parse (test_lib [(''{}'', JObj [])]) ''{}'' = Inr (JObj [])"
    and "JSON_parse (test_lib [(''null'', JNull)]) ''null'' = Inr JNull"
    by (simp_all add: test_lib_def)
  then show ?thesis
    by (simp add: outcome_def get_fold initial_def handle_def on_end_def done_cb_def invoke_def
        record_call_def show_nat.simps digit_char_def)
qed

section \<open>Two callbacks on the same events\<close>

text \<open>
  The functions built on \<^verbatim>\<open>request\<close> pass it a callback that wraps the caller's. The
  handlers treat both alike: where the wrapper does to the caller's state \<open>h k\<close> what
  the plain callback does to \<open>k\<close>, the two requests stay in step, event after event.
  \<open>P\<close> restricts the comparison to the states the plain run ends in.
\<close>

lemma map_user_sel [simp]:
  "once (map_user h s) = once s"
  "error_listener (map_user h s) = error_listener s"
  "response_listener (map_user h s) = response_listener s"
  "res (map_user h s) = res s"
  "user (map_user h s) = h (user s)"
  "uncaught (map_user h s) = uncaught s"
  by (simp_all add: map_user_def)

lemma map_user_update:
  "map_user h (s\<lparr>once := b\<rparr>) = (map_user h s)\<lparr>once := b\<rparr>"
  "map_user h (s\<lparr>error_listener := b\<rparr>) = (map_user h s)\<lparr>error_listener := b\<rparr>"
  "map_user h (s\<lparr>response_listener := b\<rparr>) = (map_user h s)\<lparr>response_listener := b\<rparr>"
  "map_user h (s\<lparr>res := r\<rparr>) = (map_user h s)\<lparr>res := r\<rparr>"
  "map_user h (s\<lparr>uncaught := u\<rparr>) = (map_user h s)\<lparr>uncaught := u\<rparr>"
  "map_user h (s\<lparr>user := k\<rparr>) = (map_user h s)\<lparr>user := h k\<rparr>"
  by (simp_all add: map_user_def)

lemma map_user_initial [simp]: "map_user h (initial k) = initial (h k)"
  by (simp add: map_user_def initial_def)

lemma invoke_sim:
  assumes thr: "\<And>r k e. cb1 r k = Inl e \<Longrightarrow> cb2 r (h k) = Inl e"
    and ok: "\<And>r k k'. cb1 r k = Inr k' \<Longrightarrow> P k' \<Longrightarrow> cb2 r (h k) = Inr (h k')"
    and fin: "P (user (invoke cb1 r s))"
  shows "invoke cb2 r (map_user h s) = map_user h (invoke cb1 r s)"
proof (cases "cb1 r (user s)")
  case (Inl e)
  with thr [OF Inl] show ?thesis
    by (simp add: invoke_def map_user_update)
next
  case (Inr k')
  with fin have "P k'"
    by (simp add: invoke_def)
  with ok [OF Inr] Inr show ?thesis
    by (simp add: invoke_def map_user_update)
qed

lemma done_cb_sim:
  assumes thr: "\<And>r k e. cb1 r k = Inl e \<Longrightarrow> cb2 r (h k) = Inl e"
    and ok: "\<And>r k k'. cb1 r k = Inr k' \<Longrightarrow> P k' \<Longrightarrow> cb2 r (h k) = Inr (h k')"
    and fin: "P (user (done_cb cb1 r s))"
  shows "done_cb cb2 r (map_user h s) = map_user h (done_cb cb1 r s)"
proof (cases "once s")
  case True
  then show ?thesis
    by (simp add: done_cb_def)
next
  case False
  with fin have "P (user (invoke cb1 r (s\<lparr>once := True\<rparr>)))"
    by (simp add: done_cb_def)
  from invoke_sim [of cb1 cb2 h P, OF thr ok this] False show ?thesis
    by (simp add: done_cb_def map_user_update)
qed

lemma on_end_sim:
  assumes thr: "\<And>r k e. cb1 r k = Inl e \<Longrightarrow> cb2 r (h k) = Inl e"
    and ok: "\<And>r k k'. cb1 r k = Inr k' \<Longrightarrow> P k' \<Longrightarrow> cb2 r (h k) = Inr (h k')"
    and fin: "P (user (on_end L cb1 i s))"
  shows "on_end L cb2 i (map_user h s) = map_user h (on_end L cb1 i s)"
  using fin
  by (auto simp: on_end_def map_user_update split: sum.splits
      intro!: done_cb_sim [of cb1 cb2 h P, OF thr ok] invoke_sim [of cb1 cb2 h P, OF thr ok])

lemma handle_sim:
  assumes thr: "\<And>r k e. cb1 r k = Inl e \<Longrightarrow> cb2 r (h k) = Inl e"
    and ok: "\<And>r k k'. cb1 r k = Inr k' \<Longrightarrow> P k' \<Longrightarrow> cb2 r (h k) = Inr (h k')"
    and fin: "P (user (handle L cb1 ev s))"
  shows "handle L cb2 ev (map_user h s) = map_user h (handle L cb1 ev s)"
proof (cases ev)
  case (Response status)
  then show ?thesis
    by (simp add: handle_def map_user_update)
next
  case (Data chunk)
  then show ?thesis
    by (simp add: handle_def map_user_update split: option.splits)
next
  case End
  with fin show ?thesis
    by (auto simp: handle_def map_user_update(4) [symmetric] split: option.splits
        intro!: on_end_sim [of cb1 cb2 h P, OF thr ok])
next
  case (ReqError e)
  with fin show ?thesis
    by (auto simp: handle_def map_user_update(2) [symmetric] map_user_update(5)
        intro!: done_cb_sim [of cb1 cb2 h P, OF thr ok])
qed

text \<open>An event leaves the caller's state as it is or as one call of the callback makes it.\<close>

lemma user_invoke:
  "user (invoke cb r s) = user s \<or> cb r (user s) = Inr (user (invoke cb r s))"
  by (simp add: invoke_def split: sum.splits)

lemma user_done_cb:
  "user (done_cb cb r s) = user s \<or> cb r (user s) = Inr (user (done_cb cb r s))"
  using user_invoke [of cb r "s\<lparr>once := True\<rparr>"] by (simp add: done_cb_def)

lemma user_on_end:
  "user (on_end L cb i s) = user s \<or> (\<exists>r. cb r (user s) = Inr (user (on_end L cb i s)))"
  by (auto simp: on_end_def done_cb_def invoke_def split: sum.splits)

lemma user_handle:
  "user (handle L cb ev s) = user s \<or> (\<exists>r. cb r (user s) = Inr (user (handle L cb ev s)))"
proof (cases ev)
  case End
  show ?thesis
  proof (cases "res s")
    case None
    with End show ?thesis by (simp add: handle_def)
  next
    case (Some i)
    from user_on_end [of L cb i "s\<lparr>res := Some (i\<lparr>end_listener := False\<rparr>)\<rparr>"] End Some
    show ?thesis by (simp add: handle_def)
  qed
next
  case (ReqError e)
  from user_done_cb [of cb "Inl e" "s\<lparr>error_listener := False\<rparr>"] ReqError
  show ?thesis by (auto simp: handle_def)
qed (simp_all add: handle_def split: option.splits)

lemma user_fold_handle:
  assumes mono: "\<And>r k k'. cb r k = Inr k' \<Longrightarrow> P k' \<Longrightarrow> P k"
    and fin: "P (user (fold (handle L cb) evs s))"
  shows "P (user s)"
  using fin
proof (induction evs arbitrary: s)
  case Nil
  then show ?case by simp
next
  case (Cons ev evs)
  then have "P (user (handle L cb ev s))"
    by simp
  with user_handle [of L cb ev s] mono show ?case
    by metis
qed

lemma fold_handle_sim:
  assumes thr: "\<And>r k e. cb1 r k = Inl e \<Longrightarrow> cb2 r (h k) = Inl e"
    and ok: "\<And>r k k'. cb1 r k = Inr k' \<Longrightarrow> P k' \<Longrightarrow> cb2 r (h k) = Inr (h k')"
    and mono: "\<And>r k k'. cb1 r k = Inr k' \<Longrightarrow> P k' \<Longrightarrow> P k"
    and fin: "P (user (fold (handle L cb1) evs s))"
  shows "fold (handle L cb2) evs (map_user h s) = map_user h (fold (handle L cb1) evs s)"
  using fin
proof (induction evs arbitrary: s)
  case Nil
  then show ?case by simp
next
  case (Cons ev evs)
  then have later: "P (user (fold (handle L cb1) evs (handle L cb1 ev s)))"
    by simp
  have now: "P (user (handle L cb1 ev s))"
  proof (rule user_fold_handle [where cb = cb1 and P = P and L = L and evs = evs])
    show "P (user (fold (handle L cb1) evs (handle L cb1 ev s)))"
      by (fact later)
    show "P k" if "cb1 r k = Inr k'" and "P k'" for r k k'
      using that by (rule mono)
  qed
  have "handle L cb2 ev (map_user h s) = map_user h (handle L cb1 ev s)"
  proof (rule handle_sim [where ?cb1.0 = cb1 and P = P])
    show "cb2 r (h k) = Inl e" if "cb1 r k = Inl e" for r k e
      using that by (rule thr)
    show "cb2 r (h k) = Inr (h k')" if "cb1 r k = Inr k'" and "P k'" for r k k'
      using that by (rule ok)
    show "P (user (handle L cb1 ev s))"
      by (fact now)
  qed
  with Cons.IH [OF later] show ?case
    by simp
qed

lemma outcome_Inr: "outcome r = Inr k \<longleftrightarrow> (\<exists>s. r = Inr s \<and> user s = k)"
  by (cases r) (auto simp: outcome_def)

lemma outcome_Inl: "outcome r = Inl e \<longleftrightarrow> r = Inl e"
  by (cases r) (auto simp: outcome_def)


section \<open>spendTX\<close>




section \<open>getComplexity and getNonce\<close>

lemma getComplexity_calls:
  assumes "\<And>s. getInfo L this net record_call [] = Inr s \<Longrightarrow>
      list_all (\<lambda>r. case r of Inl e \<Rightarrow> True
                     | Inr info \<Rightarrow> \<exists>c. get_prop info ''proof-of-work-complexity'' = Inr c)
        (user s)"
  shows "getComplexity L this net record_call []
     = (case getInfo L this net record_call [] of
          Inl e \<Rightarrow> Inl e
        | Inr s \<Rightarrow>
            Inr (map_user (map (\<lambda>r. case r of
                        Inl err \<Rightarrow> Inl err
                      | Inr info \<Rightarrow>
                          (case get_prop info ''proof-of-work-complexity'' of
                             Inr c \<Rightarrow> Inr (js_or c (JNum 0))
                           | Inl e \<Rightarrow> Inl e))) s))"
proof -
  let ?P = "list_all (\<lambda>r :: js_error + jsval. case r of Inl e \<Rightarrow> True
                          | Inr info \<Rightarrow> \<exists>c. get_prop info ''proof-of-work-complexity'' = Inr c)"
  let ?g = "\<lambda>r :: js_error + jsval. case r of
                        Inl err \<Rightarrow> Inl err
                      | Inr info \<Rightarrow>
                          (case get_prop info ''proof-of-work-complexity'' of
                             Inr c \<Rightarrow> Inr (js_or c (JNum 0))
                           | Inl e \<Rightarrow> Inl e)"
  let ?cb2 = "\<lambda>r. case r of
              Inl err \<Rightarrow> record_call (Inl err)
            | Inr info \<Rightarrow>
                (case get_prop info ''proof-of-work-complexity'' of
                   Inl e \<Rightarrow> (\<lambda>k. Inl e)
                 | Inr complexity \<Rightarrow> record_call (Inr (js_or complexity (JNum 0))))"
  have "fold (handle L ?cb2) evs (map_user (map ?g) (initial []))
      = map_user (map ?g) (fold (handle L record_call) evs (initial []))"
    if "?P (user (fold (handle L record_call) evs (initial [])))" for evs
    using that
    by (rule fold_handle_sim [where P = ?P, rotated 3])
      (auto simp: record_call_def split: sum.splits)
  with assms show ?thesis
    by (simp add: getComplexity_def getInfo_def get_fold split: option.splits)
qed

text \<open>
  C10. Where \<^verbatim>\<open>getInfo\<close> fails, \<^verbatim>\<open>getComplexity\<close> fails with the same error, be it
  passed to the callback or thrown before the request is sent. Where \<^verbatim>\<open>getInfo\<close> gives
  an info record, \<^verbatim>\<open>getComplexity\<close> gives its property \<open>proof-of-work-complexity\<close> if
  that is truthy, and 0 otherwise: a number is given as it is reported (0 as 0), and a
  record without the property gives 0.
\<close>

theorem getComplexity_from_info:
  "(outcome (getInfo L this net record_call []) = Inr [Inl err] \<longrightarrow>
      outcome (getComplexity L this net record_call []) = Inr [Inl err])
   \<and> (outcome (getInfo L this net record_call []) = Inr [Inr (JObj kvs)]
        \<and> map_of kvs ''proof-of-work-complexity'' = Some (JNum n) \<longrightarrow>
      outcome (getComplexity L this net record_call []) = Inr [Inr (JNum n)])
   \<and> (outcome (getInfo L this net record_call []) = Inr [Inr (JObj kvs)]
        \<and> map_of kvs ''proof-of-work-complexity'' = Some c \<and> truthy c \<longrightarrow>
      outcome (getComplexity L this net record_call []) = Inr [Inr c])
   \<and> (outcome (getInfo L this net record_call []) = Inr [Inr (JObj kvs)]
        \<and> map_of kvs ''proof-of-work-complexity'' = None \<longrightarrow>
      outcome (getComplexity L this net record_call []) = Inr [Inr (JNum 0)])
   \<and> (outcome (getInfo L this net record_call []) = Inl err \<longrightarrow>
      outcome (getComplexity L this net record_call []) = Inl err)"
proof -
  have fails: "outcome (getComplexity L this net record_call []) = Inr [Inl err]"
    if "outcome (getInfo L this net record_call []) = Inr [Inl err]"
  proof -
    from that obtain s where s: "getInfo L this net record_call [] = Inr s" "user s = [Inl err]"
      by (auto simp: outcome_Inr)
    then show ?thesis
      by (subst getComplexity_calls) (simp_all add: outcome_def)
  qed
  have gives: "outcome (getComplexity L this net record_call [])
      = Inr [Inr (js_or (case map_of kvs ''proof-of-work-complexity'' of
                       Some v \<Rightarrow> v | None \<Rightarrow> JUndefined) (JNum 0))]"
    if "outcome (getInfo L this net record_call []) = Inr [Inr (JObj kvs)]"
  proof -
    from that obtain s where s: "getInfo L this net record_call [] = Inr s"
        "user s = [Inr (JObj kvs)]"
      by (auto simp: outcome_Inr)
    then show ?thesis
      by (subst getComplexity_calls) (simp_all add: outcome_def)
  qed
  have throws: "outcome (getComplexity L this net record_call []) = Inl err"
    if "outcome (getInfo L this net record_call []) = Inl err"
    using that by (subst getComplexity_calls) (simp_all add: outcome_Inl)
  show ?thesis
    using fails gives throws by (auto simp: js_or_def)
qed

theorem getComplexity_from_info_witness:
  "outcome (getComplexity
      (test_lib [(''{'' @ quoted ''proof-of-work-complexity'' @ '':4}'',
                  JObj [(''proof-of-work-complexity'', JNum 4)])])
      (Client (test_lib []) ''http://localhost/'')
      (\<lambda>sent. [Response 200, Data (''{'' @ quoted ''proof-of-work-complexity'' @ '':4}''), End])
      record_call []) = Inr [Inr (JNum 4)]
   \<and> outcome (getComplexity (test_lib [(''{}'', JObj [])])
      (Client (test_lib []) ''http://localhost/'')
      (\<lambda>sent. [Response 200, Data ''{}'', End]) record_call []) = Inr [Inr (JNum 0)]
   \<and> outcome (getComplexity (test_lib [])
      (Client (test_lib []) ''http://localhost/'')
      (\<lambda>sent. [ReqError (Error ''connect ECONNREFUSED'')]) record_call [])
     = Inr [Inl (Error ''connect ECONNREFUSED'')]"
  using getComplexity_from_info [of
      "test_lib [(''{'' @ quoted ''proof-of-work-complexity'' @ '':4}'',
                  JObj [(''proof-of-work-complexity'', JNum 4)])]"
      "Client (test_lib []) ''http://localhost/''"
      "\<lambda>sent. [Response 200, Data (''{'' @ quoted ''proof-of-work-complexity'' @ '':4}''), End]"
      "Error ''none''" "[(''proof-of-work-complexity'', JNum 4)]" 4 "JNum 4"]
    getComplexity_from_info [of "test_lib [(''{}'', JObj [])]"
      "Client (test_lib []) ''http://localhost/''"
      "\<lambda>sent. [Response 200, Data ''{}'', End]" "Error ''none''" "[]" 0 JNull]
    getComplexity_from_info [of "test_lib []"
      "Client (test_lib []) ''http://localhost/''"
      "\<lambda>sent. [ReqError (Error ''connect ECONNREFUSED'')]" "Error ''connect ECONNREFUSED''"
      "[]" 0 JNull]
  by (simp add: outcome_def getInfo_def get_fold initial_def handle_def on_end_def
      done_cb_def invoke_def record_call_def test_lib_def request_options_def util_extend_def)

lemma ToString_solve_update [simp]: "ToString (L\<lparr>solve := s\<rparr>) v = ToString L v"
  by (cases v) simp_all

lemma on_end_solve_update [simp]: "on_end (L\<lparr>solve := s\<rparr>) callback = on_end L callback"
  by (auto simp: on_end_def fun_eq_iff split: sum.splits)

lemma handle_solve_update [simp]: "handle (L\<lparr>solve := s\<rparr>) callback = handle L callback"
  by (auto simp: handle_def fun_eq_iff split: event.splits option.splits)

lemma getComplexity_solve_update [simp]:
  "getComplexity (L\<lparr>solve := s\<rparr>) this net callback k = getComplexity L this net callback k"
  by (simp add: getComplexity_def getInfo_def get_fold split: option.splits)

lemma getNonce_calls:
  assumes "\<And>s. getComplexity L this net record_call [] = Inr s \<Longrightarrow>
      list_all (\<lambda>r. case r of Inl e \<Rightarrow> True | Inr c \<Rightarrow> \<exists>nonce. solve L c = Inr nonce) (user s)"
  shows "getNonce L this net record_call []
     = (case getComplexity L this net record_call [] of
          Inl e \<Rightarrow> Inl e
        | Inr s \<Rightarrow>
            Inr (map_user (map (\<lambda>r. case r of
                        Inl err \<Rightarrow> Inl err
                      | Inr c \<Rightarrow>
                          (case solve L c of
                             Inr nonce \<Rightarrow> Inr (ToString L c @ '':'' @ toString_hex nonce)
                           | Inl e \<Rightarrow> Inl e))) s))"
proof -
  let ?P = "list_all (\<lambda>r :: js_error + jsval. case r of Inl e \<Rightarrow> True
                          | Inr c \<Rightarrow> \<exists>nonce. solve L c = Inr nonce)"
  let ?g = "\<lambda>r :: js_error + jsval. case r of
                        Inl err \<Rightarrow> Inl err
                      | Inr c \<Rightarrow>
                          (case solve L c of
                             Inr nonce \<Rightarrow> Inr (ToString L c @ '':'' @ toString_hex nonce)
                           | Inl e \<Rightarrow> Inl e)"
  let ?k = "\<lambda>callback :: (string, (js_error + string) list) callback. \<lambda>r. case r of
              Inl err \<Rightarrow> callback (Inl err)
            | Inr complexity \<Rightarrow>
                (case solve L complexity of
                   Inl e \<Rightarrow> (\<lambda>k. Inl e)
                 | Inr nonce \<Rightarrow>
                     callback (Inr (ToString L complexity @ '':'' @ toString_hex nonce)))"
  let ?w = "\<lambda>callback :: (jsval, 'k) callback. \<lambda>r. case r of
              Inl err \<Rightarrow> callback (Inl err)
            | Inr info \<Rightarrow>
                (case get_prop info ''proof-of-work-complexity'' of
                   Inl e \<Rightarrow> (\<lambda>k. Inl e)
                 | Inr complexity \<Rightarrow> callback (Inr (js_or complexity (JNum 0))))"
  have sim: "fold (handle L (?w (?k record_call))) evs (map_user (map ?g) (initial []))
      = map_user (map ?g) (fold (handle L (?w record_call)) evs (initial []))"
    if "?P (user (fold (handle L (?w record_call)) evs (initial [])))" for evs
    using that
    by (rule fold_handle_sim [where P = ?P, rotated 3])
      (auto simp: record_call_def split: sum.splits)
  show ?thesis
  proof (cases "http_throws L (request_options this ''GET'' [] ''/'')")
    case (Some e)
    then show ?thesis
      by (simp add: getNonce_def getComplexity_def getInfo_def get_fold)
  next
    case None
    let ?evs = "net \<lparr>sent_options = request_options this ''GET'' [] ''/'', sent_body = None\<rparr>"
    have mid: "getComplexity L this net record_call []
        = Inr (fold (handle L (?w record_call)) ?evs (initial []))"
      unfolding getComplexity_def getInfo_def get_fold None by simp
    have lhs: "getNonce L this net record_call []
        = Inr (fold (handle L (?w (?k record_call))) ?evs (initial []))"
      unfolding getNonce_def getComplexity_def getInfo_def get_fold None by simp
    from assms [OF mid] have "?P (user (fold (handle L (?w record_call)) ?evs (initial [])))"
      by simp
    from sim [OF this]
    have eq: "fold (handle L (?w (?k record_call))) ?evs (initial [])
        = map_user (map ?g) (fold (handle L (?w record_call)) ?evs (initial []))"
      by (simp only: map_user_initial list.map)
    show ?thesis
      unfolding lhs mid eq by simp
  qed
qed

text \<open>
  C9. Where \<^verbatim>\<open>getComplexity\<close> gives a complexity and the solver returns a nonce for it,
  \<^verbatim>\<open>getNonce\<close> gives the string made of the complexity, a colon and the hex of that
  nonce. Where \<^verbatim>\<open>getComplexity\<close> fails, by an error passed to the callback or by an
  exception thrown before the request is sent, \<^verbatim>\<open>getNonce\<close> fails with the same
  error, whatever the solver is: it is not consulted.
\<close>

theorem getNonce_from_complexity:
  "(outcome (getComplexity L this net record_call []) = Inr [Inr complexity]
      \<and> solve L complexity = Inr nonce \<longrightarrow>
    outcome (getNonce L this net record_call [])
      = Inr [Inr (ToString L complexity @ '':'' @ toString_hex nonce)])
   \<and> (outcome (getComplexity L this net record_call []) = Inr [Inl err] \<longrightarrow>
    (\<forall>s. outcome (getNonce (L\<lparr>solve := s\<rparr>) this net record_call []) = Inr [Inl err]))
   \<and> (outcome (getComplexity L this net record_call []) = Inl err \<longrightarrow>
    (\<forall>s. outcome (getNonce (L\<lparr>solve := s\<rparr>) this net record_call []) = Inl err))"
proof -
  have gives: "outcome (getNonce L this net record_call [])
      = Inr [Inr (ToString L complexity @ '':'' @ toString_hex nonce)]"
    if "outcome (getComplexity L this net record_call []) = Inr [Inr complexity]"
      and "solve L complexity = Inr nonce"
  proof -
    from that(1) obtain s where "getComplexity L this net record_call [] = Inr s"
        "user s = [Inr complexity]"
      by (auto simp: outcome_Inr)
    with that(2) show ?thesis
      by (subst getNonce_calls) (simp_all add: outcome_def)
  qed
  have fails: "outcome (getNonce (L\<lparr>solve := s\<rparr>) this net record_call []) = Inr [Inl err]"
    if "outcome (getComplexity L this net record_call []) = Inr [Inl err]" for s
  proof -
    from that obtain t where "getComplexity L this net record_call [] = Inr t"
        "user t = [Inl err]"
      by (auto simp: outcome_Inr)
    then show ?thesis
      by (subst getNonce_calls) (simp_all add: outcome_def)
  qed
  have throws: "outcome (getNonce (L\<lparr>solve := s\<rparr>) this net record_call []) = Inl err"
    if "outcome (getComplexity L this net record_call []) = Inl err" for s
    using that by (subst getNonce_calls) (simp_all add: outcome_Inl)
  show ?thesis
    using fails gives throws by blast
qed

theorem getNonce_from_complexity_witness:
  "outcome (getNonce
      (test_lib [(''{'' @ quoted ''proof-of-work-complexity'' @ '':4}'',
                  JObj [(''proof-of-work-complexity'', JNum 4)])])
      (Client (test_lib []) ''http://localhost/'')
      (\<lambda>sent. [Response 200, Data (''{'' @ quoted ''proof-of-work-complexity'' @ '':4}''), End])
      record_call []) = Inr [Inr ''4:dead'']
   \<and> outcome (getNonce (test_lib []) (Client (test_lib []) ''http://localhost/'')
      (\<lambda>sent. [ReqError (Error ''connect ECONNREFUSED'')]) record_call [])
     = Inr [Inl (Error ''connect ECONNREFUSED'')]"
proof -
  let ?body = "''{'' @ quoted ''proof-of-work-complexity'' @ '':4}''"
  let ?L = "test_lib [(?body, JObj [(''proof-of-work-complexity'', JNum 4)])]"
  let ?client = "Client (test_lib []) ''http://localhost/''"
  let ?net = "\<lambda>sent :: sent. [Response 200, Data ?body, End]"
  let ?down = "\<lambda>sent :: sent. [ReqError (Error ''connect ECONNREFUSED'')]"
  have a: "outcome (getComplexity ?L ?client ?net record_call []) = Inr [Inr (JNum 4)]"
    by (simp add: outcome_def getComplexity_def getInfo_def get_fold initial_def handle_def
        on_end_def done_cb_def invoke_def record_call_def js_or_def test_lib_def
        request_options_def util_extend_def)
  have b: "solve ?L (JNum 4) = Inr [222, 173]"
    by (simp add: test_lib_def)
  have c: "outcome (getComplexity (test_lib []) ?client ?down record_call [])
      = Inr [Inl (Error ''connect ECONNREFUSED'')]"
    by (simp add: outcome_def getComplexity_def getInfo_def get_fold initial_def handle_def
        on_end_def done_cb_def invoke_def record_call_def test_lib_def
        request_options_def util_extend_def)
  have d: "(test_lib [])\<lparr>solve := solve (test_lib [])\<rparr> = test_lib []"
    by simp
  from getNonce_from_complexity [of ?L ?client ?net "JNum 4" "[222, 173]" "Error ''none''"] a b
  have "outcome (getNonce ?L ?client ?net record_call [])
      = Inr [Inr (ToString ?L (JNum 4) @ '':'' @ toString_hex [222, 173])]"
    by blast
  moreover
  from getNonce_from_complexity [of "test_lib []" ?client ?down JNull "[]"
      "Error ''connect ECONNREFUSED''"] c
  have "outcome (getNonce ((test_lib [])\<lparr>solve := solve (test_lib [])\<rparr>) ?client ?down record_call [])
      = Inr [Inl (Error ''connect ECONNREFUSED'')]"
    by blast
  ultimately show ?thesis
    by (simp add: d toString_hex_def hex_byte_def digit_char_def show_int_def show_nat.simps)
qed

end
